theory Spec2Isabelle
  imports Complex_Main
begin

section \<open>Python strings\<close>

text \<open>
  A Python \<open>str\<close> is modelled as a \<open>string\<close> whose characters are the code points
  U+0000 to U+00FF. The string methods used by \<open>core/deduplication_engine.py\<close> are
  written out below with Python's behaviour on that range. Python's unbounded integers
  are \<open>int\<close> or \<open>nat\<close>.
\<close>

definition py_isspace :: "char \<Rightarrow> bool" where
  \<comment> \<open>\<open>str.isspace\<close>: TAB, LF, VT, FF, CR, FS, GS, RS, US, space, NEL, NBSP.\<close>
  "py_isspace c =
     (let n = (of_char c :: nat)
      in (9 \<le> n \<and> n \<le> 13) \<or> (28 \<le> n \<and> n \<le> 32) \<or> n = 133 \<or> n = 160)"

definition py_isupper :: "char \<Rightarrow> bool" where
  \<comment> \<open>the code points that \<open>str.lower\<close> changes: A-Z and U+00C0..U+00DE without U+00D7\<close>
  "py_isupper c =
     (let n = (of_char c :: nat)
      in (65 \<le> n \<and> n \<le> 90) \<or> (192 \<le> n \<and> n \<le> 222 \<and> n \<noteq> 215))"

definition py_lower_char :: "char \<Rightarrow> char" where
  \<comment> \<open>the lower-case letter is 32 above: bit 5, clear in both ranges, is set\<close>
  "py_lower_char c =
     (if py_isupper c
      then (case c of Char b0 b1 b2 b3 b4 b5 b6 b7 \<Rightarrow> Char b0 b1 b2 b3 b4 True b6 b7)
      else c)"

definition lower :: "string \<Rightarrow> string" where
  "lower s = map py_lower_char s"

definition py_isdigit :: "char \<Rightarrow> bool" where
  \<comment> \<open>\<open>str.isdigit\<close>: 0-9 and the superscripts U+00B2, U+00B3, U+00B9\<close>
  "py_isdigit c =
     (let n = (of_char c :: nat)
      in (48 \<le> n \<and> n \<le> 57) \<or> n = 178 \<or> n = 179 \<or> n = 185)"

definition py_isalpha_char :: "char \<Rightarrow> bool" where
  \<comment> \<open>letters below U+0100: A-Z, a-z, U+00AA, U+00B5, U+00BA, U+00C0..U+00FF
      without the signs U+00D7 and U+00F7\<close>
  "py_isalpha_char c =
     (let n = (of_char c :: nat)
      in (65 \<le> n \<and> n \<le> 90) \<or> (97 \<le> n \<and> n \<le> 122) \<or> n = 170 \<or> n = 181 \<or> n = 186
         \<or> (192 \<le> n \<and> n \<noteq> 215 \<and> n \<noteq> 247))"

definition isalpha :: "string \<Rightarrow> bool" where
  \<comment> \<open>\<open>str.isalpha\<close> is false on the empty string\<close>
  "isalpha s = (s \<noteq> [] \<and> list_all py_isalpha_char s)"

fun split_acc :: "string \<Rightarrow> string \<Rightarrow> string list" where
  "split_acc cur [] = (if cur = [] then [] else [cur])"
| "split_acc cur (c # cs) =
     (if py_isspace c
      then (if cur = [] then split_acc [] cs else cur # split_acc [] cs)
      else split_acc (cur @ [c]) cs)"

definition split_ws :: "string \<Rightarrow> string list" where
  \<comment> \<open>\<open>s.split()\<close>: the maximal runs of non-whitespace characters\<close>
  "split_ws s = split_acc [] s"

fun join :: "string \<Rightarrow> string list \<Rightarrow> string" where
  "join sep [] = []"
| "join sep [x] = x"
| "join sep (x # y # ys) = x @ sep @ join sep (y # ys)"

fun starts_with :: "string \<Rightarrow> string \<Rightarrow> bool" where
  "starts_with [] s = True"
| "starts_with (p # ps) [] = False"
| "starts_with (p # ps) (c # cs) = (p = c \<and> starts_with ps cs)"

fun replace :: "string \<Rightarrow> string \<Rightarrow> string \<Rightarrow> string" where
  \<comment> \<open>\<open>s.replace(old, new)\<close>: occurrences found from the left, not overlapping\<close>
  "replace [] old new = (if old = [] then new else [])"
| "replace (c # cs) old new =
     (if old = [] then new @ c # replace cs old new
      else if starts_with old (c # cs)
           then new @ replace (drop (length old) (c # cs)) old new
      else c # replace cs old new)"

definition strip :: "string \<Rightarrow> string" where
  "strip s = rev (dropWhile py_isspace (rev (dropWhile py_isspace s)))"

fun py_in :: "string \<Rightarrow> string \<Rightarrow> bool" where
  \<comment> \<open>\<open>sub in s\<close>\<close>
  "py_in sub [] = (sub = [])"
| "py_in sub (c # cs) = (starts_with sub (c # cs) \<or> py_in sub cs)"

fun split_sep_acc :: "string \<Rightarrow> nat \<Rightarrow> string \<Rightarrow> string \<Rightarrow> string list" where
  "split_sep_acc sep skip cur [] = [cur]"
| "split_sep_acc sep skip cur (c # cs) =
     (if 0 < skip then split_sep_acc sep (skip - 1) cur cs
      else if starts_with sep (c # cs) then cur # split_sep_acc sep (length sep - 1) [] cs
      else split_sep_acc sep 0 (cur @ [c]) cs)"

definition split_sep :: "string \<Rightarrow> string \<Rightarrow> string list" where
  \<comment> \<open>\<open>s.split(sep)\<close> for a separator that is not empty (the source passes literals);
      \<open>skip\<close> counts the characters of a separator still to be passed over\<close>
  "split_sep s sep = split_sep_acc sep 0 [] s"

definition count_char :: "string \<Rightarrow> char \<Rightarrow> nat" where
  \<comment> \<open>\<open>s.count(c)\<close> for a one-character string\<close>
  "count_char s c = length (filter (\<lambda>x. x = c) s)"

section \<open>Python floats\<close>

text \<open>
  A Python float is an IEEE 754 double. It is modelled by the real number it denotes,
  and every floating-point operation and every decimal literal of the source is rounded
  to the nearest double, ties to the even significand (53 bits). Overflow and subnormal
  numbers are not modelled: the quantities of the engine are ratios between 0 and 1 and
  word counts, far inside the normal range, where an integer converts to a float
  without rounding.
\<close>

fun bit_length :: "nat \<Rightarrow> nat" where
  \<comment> \<open>the number of binary digits of \<open>n\<close>\<close>
  "bit_length n = (if n = 0 then 0 else Suc (bit_length (n div 2)))"

declare bit_length.simps [simp del]

definition pow2 :: "int \<Rightarrow> real" where
  "pow2 e = (if 0 \<le> e then 2 ^ nat e else 1 / 2 ^ nat (- e))"

definition binary_exponent :: "real \<Rightarrow> int" where
  \<comment> \<open>for \<open>x > 0\<close>, the \<open>e\<close> with \<open>2^e \<le> x < 2^(e+1)\<close>\<close>
  "binary_exponent x =
     (if 1 \<le> x then int (bit_length (nat \<lfloor>x\<rfloor>)) - 1
      else let k = int (bit_length (nat \<lfloor>1 / x\<rfloor>)) - 1
           in if x = pow2 (- k) then - k else - k - 1)"

definition round_half_even :: "real \<Rightarrow> int" where
  "round_half_even m =
     (let f = \<lfloor>m\<rfloor>; d = m - of_int f
      in if d < 1 / 2 then f else if 1 / 2 < d then f + 1 else if even f then f else f + 1)"

definition round_double :: "real \<Rightarrow> real" where
  \<comment> \<open>the double nearest to \<open>x\<close>: the significand \<open>|x| / 2^(e-52)\<close> is rounded to an
      integer\<close>
  "round_double x =
     (if x = 0 then 0
      else let a = \<bar>x\<bar>;
               e = binary_exponent a;
               m = round_half_even (a * pow2 (52 - e));
               r = of_int m * pow2 (e - 52)
           in if x < 0 then - r else r)"

definition fadd :: "real \<Rightarrow> real \<Rightarrow> real" where
  "fadd a b = round_double (a + b)"

definition fsub :: "real \<Rightarrow> real \<Rightarrow> real" where
  "fsub a b = round_double (a - b)"

definition fmul :: "real \<Rightarrow> real \<Rightarrow> real" where
  "fmul a b = round_double (a * b)"

definition fdiv :: "real \<Rightarrow> real \<Rightarrow> real" where
  \<comment> \<open>for a divisor that is not 0 (a zero divisor raises, and is tested before)\<close>
  "fdiv a b = round_double (a / b)"

section \<open>ContentFingerprint: normalisation and topic indicators\<close>

definition quote_pattern :: string where
  \<comment> \<open>Line 78 of the source reads
      \<^verbatim>\<open>content = content.replace(''', "'").replace(''', "'")\<close>
      in ASCII. Python reads the first three apostrophes as the opening of a
      triple-quoted string, which runs up to the next three apostrophes, so the line is
      one call of \<open>replace\<close>, whose first argument is the 15-character string
      \<^verbatim>\<open>, "'").replace(\<close> and whose second argument is one apostrophe.\<close>
  "quote_pattern = [CHR '','', CHR '' '', CHR 0x22, CHR 0x27, CHR 0x22, CHR '')''] @ ''.replace(''"

definition normalize_content :: "string \<Rightarrow> string" where
  \<comment> \<open>\<open>ContentFingerprint._normalize_content\<close>. Line 77 replaces the ASCII double
      quote by itself, twice.\<close>
  "normalize_content content =
     (let c1 = join '' '' (split_ws (lower content));
          c2 = replace (replace c1 [CHR 0x0A] '' '') [CHR 0x09] '' '';
          c3 = replace (replace c2 [CHR 0x22] [CHR 0x22]) [CHR 0x22] [CHR 0x22];
          c4 = replace c3 quote_pattern [CHR 0x27]
      in strip c4)"

definition tech_indicators :: "string list" where
  "tech_indicators =
     [''ai'', ''artificial intelligence'', ''machine learning'', ''deep learning'',
      ''neural network'', ''automation'', ''robot'', ''blockchain'', ''cryptocurrency'',
      ''bitcoin'', ''ethereum'', ''cloud computing'', ''aws'', ''azure'', ''google cloud'',
      ''cybersecurity'', ''hacker'', ''data breach'', ''privacy'', ''gdpr'',
      ''startup'', ''funding'', ''venture capital'', ''ipo'', ''acquisition'',
      ''software'', ''app'', ''mobile'', ''web'', ''internet'', ''tech'', ''technology'',
      ''innovation'', ''digital'', ''platform'', ''api'', ''database'', ''server'']"

definition extract_topic_indicators :: "string \<Rightarrow> string list" where
  \<comment> \<open>\<open>ContentFingerprint._extract_topic_indicators\<close>\<close>
  "extract_topic_indicators content =
     (let content_lower = lower content;
          found_indicators = filter (\<lambda>indicator. py_in indicator content_lower) tech_indicators
      in take 10 found_indicators)"

section \<open>Exceptions, dictionaries and the external libraries\<close>

datatype exn = ZeroDivisionError | ConnectionError | ResponseError | Raised string

datatype pyval = PInt int | PFloat real | PBool bool

fun num_of :: "pyval \<Rightarrow> real" where
  \<comment> \<open>the number a Python value stands for in arithmetic (\<open>bool\<close> is a subclass of \<open>int\<close>)\<close>
  "num_of (PInt i) = real_of_int i"
| "num_of (PFloat r) = r"
| "num_of (PBool b) = (if b then 1 else 0)"

fun is_float :: "pyval \<Rightarrow> bool" where
  "is_float (PFloat r) = True"
| "is_float v = False"

type_synonym pydict = "(string \<times> pyval) list"

fun dict_put :: "'k \<Rightarrow> 'v \<Rightarrow> ('k \<times> 'v) list \<Rightarrow> ('k \<times> 'v) list" where
  \<comment> \<open>\<open>d[k] = v\<close> on a dictionary kept in insertion order\<close>
  "dict_put k v [] = [(k, v)]"
| "dict_put k v ((k', v') # d) = (if k' = k then (k, v) # d else (k', v') # dict_put k v d)"

definition dict_get :: "pydict \<Rightarrow> string \<Rightarrow> pyval \<Rightarrow> pyval" where
  \<comment> \<open>\<open>d.get(k, default)\<close>\<close>
  "dict_get d k dflt = (case map_of d k of None \<Rightarrow> dflt | Some v \<Rightarrow> v)"

record fingerprint =
  key_words :: "string list"
  key_sentences :: "string list"
  word_count :: nat
  sentence_count :: nat
  reading_ease :: real
  content_structure :: pydict
  topic_indicators :: "string list"

text \<open>
  The functions of other packages that the engine calls are parameters of the model.
  Each one that can raise returns \<open>Inl\<close> of the exception.
  \<^item> \<open>sha256_hex s\<close> is \<open>hashlib.sha256(s.encode('utf-8')).hexdigest()\<close>, and
    \<open>md5_hex s\<close> is \<open>hashlib.md5(s.encode()).hexdigest()\<close>;
  \<^item> \<open>word_tokenize\<close>, \<open>sent_tokenize\<close>, \<open>stem\<close> and \<open>stopwords\<close> are NLTK's;
  \<^item> \<open>flesch_reading_ease\<close> is textstat's;
  \<^item> \<open>ratio a b\<close> is \<open>difflib.SequenceMatcher(None, a, b).ratio()\<close>;
  \<^item> \<open>json_dumps\<close> and \<open>json_loads\<close> serialise a fingerprint;
  \<^item> \<open>isoformat t\<close> is \<open>datetime.isoformat\<close> of the time \<open>t\<close>.
\<close>

record lib =
  sha256_hex :: "string \<Rightarrow> exn + string"
  md5_hex :: "string \<Rightarrow> exn + string"
  word_tokenize :: "string \<Rightarrow> exn + string list"
  sent_tokenize :: "string \<Rightarrow> exn + string list"
  stem :: "string \<Rightarrow> exn + string"
  stopwords :: "string list"
  flesch_reading_ease :: "string \<Rightarrow> exn + real"
  ratio :: "string \<Rightarrow> string \<Rightarrow> real"
  json_dumps :: "fingerprint \<Rightarrow> exn + string"
  json_loads :: "string \<Rightarrow> exn + fingerprint"
  isoformat :: "int \<Rightarrow> string"

fun try_map :: "('a \<Rightarrow> exn + 'b) \<Rightarrow> 'a list \<Rightarrow> exn + 'b list" where
  \<comment> \<open>a list comprehension whose element expression may raise\<close>
  "try_map f [] = Inr []"
| "try_map f (x # xs) =
     (case f x of
        Inl e \<Rightarrow> Inl e
      | Inr y \<Rightarrow> (case try_map f xs of Inl e \<Rightarrow> Inl e | Inr ys \<Rightarrow> Inr (y # ys)))"

section \<open>ContentFingerprint: the semantic fingerprint\<close>

definition create_content_hash :: "lib \<Rightarrow> string \<Rightarrow> exn + string" where
  "create_content_hash L content = sha256_hex L (normalize_content content)"

fun count_words :: "(string \<times> nat) list \<Rightarrow> string list \<Rightarrow> (string \<times> nat) list" where
  \<comment> \<open>\<open>word_freq[word] = word_freq.get(word, 0) + 1\<close> for each word in turn\<close>
  "count_words freq [] = freq"
| "count_words freq (w # ws) =
     count_words (dict_put w (case map_of freq w of None \<Rightarrow> 1 | Some n \<Rightarrow> n + 1) freq) ws"

definition extract_key_words :: "lib \<Rightarrow> string \<Rightarrow> string list" where
  \<comment> \<open>\<open>sorted(..., reverse=True)\<close> is stable: equal frequencies keep their order\<close>
  "extract_key_words L content =
     (case word_tokenize L (lower content) of
        Inl e \<Rightarrow> take 20 (split_ws (lower content))
      | Inr words \<Rightarrow>
          (case try_map (stem L)
                  (filter (\<lambda>word. isalpha word \<and> 3 < length word \<and> word \<notin> set (stopwords L)) words) of
             Inl e \<Rightarrow> take 20 (split_ws (lower content))
           | Inr kws \<Rightarrow>
               (let word_freq = count_words [] kws;
                    sorted_words = sort_key (\<lambda>(word, freq). - int freq) word_freq
                in map fst (take 20 sorted_words))))"

definition sentence_score :: "nat \<Rightarrow> string \<Rightarrow> real" where
  "sentence_score i sentence =
     (let words = length (split_ws sentence);
          position_score = fdiv 1 (real i + 1);
          length_score = min (fdiv (real words) 20) 1
      in fadd position_score length_score)"

definition extract_key_sentences :: "lib \<Rightarrow> string \<Rightarrow> string list" where
  "extract_key_sentences L content =
     (case sent_tokenize L content of
        Inl e \<Rightarrow> take 5 (split_sep content ''.'')
      | Inr sentences \<Rightarrow>
          (let scored_sentences =
                 map (\<lambda>(i, sentence). (strip sentence, sentence_score i sentence))
                     (zip [0 ..< length sentences] sentences);
               sorted_sentences = sort_key (\<lambda>(sent, score). - score) scored_sentences
           in map fst (take 5 sorted_sentences)))"

definition analyze_structure :: "lib \<Rightarrow> string \<Rightarrow> pydict" where
  "analyze_structure L content =
     (let paragraphs = split_sep content [CHR 0x0A, CHR 0x0A];
          words = split_ws content
      in case sent_tokenize L content of
           Inl e \<Rightarrow> [(''word_count'', PInt (int (length words)))]
         | Inr sentences \<Rightarrow>
            [(''paragraph_count'', PInt (int (length paragraphs))),
             (''avg_paragraph_length'',
                if paragraphs \<noteq> []
                then PFloat (fdiv (real (sum_list (map (\<lambda>p. length (split_ws p)) paragraphs)))
                                  (real (length paragraphs)))
                else PInt 0),
             (''sentence_count'', PInt (int (length sentences))),
             (''avg_sentence_length'',
                if sentences \<noteq> []
                then PFloat (fdiv (real (sum_list (map (\<lambda>s. length (split_ws s)) sentences)))
                                  (real (length sentences)))
                else PInt 0),
             (''word_count'', PInt (int (length words))),
             (''has_quotes'', PBool (py_in [CHR 0x22] content \<or> py_in [CHR 0x27] content)),
             (''has_numbers'', PBool (list_ex py_isdigit content)),
             (''has_links'', PBool (py_in ''http'' (lower content) \<or> py_in ''www'' (lower content)))])"

definition create_basic_fingerprint :: "string \<Rightarrow> fingerprint" where
  "create_basic_fingerprint content =
     (let words = split_ws content
      in \<lparr> key_words = take 20 words,
           key_sentences = take 3 (split_sep content ''.''),
           word_count = length words,
           sentence_count = count_char content (CHR ''.'') + count_char content (CHR ''!'')
                            + count_char content (CHR ''?''),
           reading_ease = 50,
           content_structure = [(''word_count'', PInt (int (length words)))],
           topic_indicators = [] \<rparr>)"

definition create_semantic_fingerprint :: "lib \<Rightarrow> string \<Rightarrow> fingerprint" where
  \<comment> \<open>The entries of the dictionary are evaluated in the order written; the two that can
      raise are \<open>sent_tokenize\<close> and \<open>flesch_reading_ease\<close>, and the handler then returns
      the basic fingerprint.\<close>
  "create_semantic_fingerprint L content =
     (let words = extract_key_words L content;
          sentences = extract_key_sentences L content
      in case sent_tokenize L content of
           Inl e \<Rightarrow> create_basic_fingerprint content
         | Inr sents \<Rightarrow>
            (case (if strip content \<noteq> [] then flesch_reading_ease L content else Inr 0) of
               Inl e \<Rightarrow> create_basic_fingerprint content
             | Inr ease \<Rightarrow>
                 \<lparr> key_words = words,
                   key_sentences = sentences,
                   word_count = length (split_ws content),
                   sentence_count = length sents,
                   reading_ease = ease,
                   content_structure = analyze_structure L content,
                   topic_indicators = extract_topic_indicators content \<rparr>))"

section \<open>DeduplicationEngine: similarity\<close>

definition calculate_word_similarity :: "string list \<Rightarrow> string list \<Rightarrow> real" where
  "calculate_word_similarity words1 words2 =
     (if words1 = [] \<or> words2 = [] then 0
      else let intersection = card (set words1 \<inter> set words2);
               union = card (set words1 \<union> set words2)
           in if 0 < union then fdiv (real intersection) (real union) else 0)"

definition calculate_sentence_similarity :: "lib \<Rightarrow> string list \<Rightarrow> string list \<Rightarrow> real" where
  "calculate_sentence_similarity L sentences1 sentences2 =
     (if sentences1 = [] \<or> sentences2 = [] then 0
      else fold (\<lambda>s1 m. fold (\<lambda>s2 m'. max m' (ratio L (lower s1) (lower s2))) sentences2 m)
                sentences1 0)"

definition calculate_topic_similarity :: "string list \<Rightarrow> string list \<Rightarrow> real" where
  "calculate_topic_similarity topics1 topics2 =
     (if topics1 = [] \<or> topics2 = [] then 0
      else let intersection = card (set topics1 \<inter> set topics2);
               union = card (set topics1 \<union> set topics2)
           in if 0 < union then fdiv (real intersection) (real union) else 0)"

definition calculate_structure_similarity :: "pydict \<Rightarrow> pydict \<Rightarrow> exn + real" where
  \<comment> \<open>The difference of two integers is exact, a difference with a float operand is
      rounded; \<open>/\<close> raises ZeroDivisionError on a zero divisor and rounds the quotient.\<close>
  "calculate_structure_similarity struct1 struct2 =
     (if struct1 = [] \<or> struct2 = [] then Inr 0
      else let a = dict_get struct1 ''word_count'' (PInt 0);
               b = dict_get struct2 ''word_count'' (PInt 0);
               word_count_diff = \<bar>if is_float a \<or> is_float b then fsub (num_of a) (num_of b)
                                  else num_of a - num_of b\<bar>;
               max_words = max (num_of (dict_get struct1 ''word_count'' (PInt 1)))
                               (num_of (dict_get struct2 ''word_count'' (PInt 1)))
           in if max_words = 0 then Inl ZeroDivisionError
              else Inr (fsub 1 (fdiv word_count_diff max_words)))"

definition calculate_similarity :: "lib \<Rightarrow> fingerprint \<Rightarrow> fingerprint \<Rightarrow> real" where
  \<comment> \<open>the \<open>except\<close> branch returns 0.0; the sum is added from the left, each product
      and each sum rounded\<close>
  "calculate_similarity L fp1 fp2 =
     (let word_sim = calculate_word_similarity (key_words fp1) (key_words fp2);
          sentence_sim = calculate_sentence_similarity L (key_sentences fp1) (key_sentences fp2);
          topic_sim = calculate_topic_similarity (topic_indicators fp1) (topic_indicators fp2)
      in case calculate_structure_similarity (content_structure fp1) (content_structure fp2) of
           Inl e \<Rightarrow> 0
         | Inr structure_sim \<Rightarrow>
             fadd (fadd (fadd (fmul word_sim (round_double 0.4))
                              (fmul sentence_sim (round_double 0.3)))
                        (fmul topic_sim (round_double 0.2)))
                  (fmul structure_sim (round_double 0.1)))"

section \<open>The two backends\<close>

text \<open>
  Time is the clock reading in seconds, an \<open>int\<close>; a call of the engine reads the clock
  once. The Redis server is outside the repository: the model keeps, for each key, its
  value and the time at which it expires, and gives the commands the engine sends
  (\<open>EXISTS\<close>, \<open>SETEX\<close>, \<open>KEYS prefix*\<close>, \<open>GET\<close>). A client whose server is not
  reachable (\<open>alive\<close> false) raises on every command; \<open>SETEX\<close> with a time to live
  that is not positive is refused by the server.
\<close>

record redis =
  alive :: bool
  entries :: "(string \<times> string \<times> int) list"

definition redis_live :: "int \<Rightarrow> string \<times> string \<times> int \<Rightarrow> bool" where
  "redis_live now e = (now < snd (snd e))"

definition redis_exists :: "redis \<Rightarrow> int \<Rightarrow> string \<Rightarrow> exn + bool" where
  "redis_exists r now k =
     (if \<not> alive r then Inl ConnectionError
      else Inr (list_ex (\<lambda>e. fst e = k \<and> redis_live now e) (entries r)))"

definition redis_setex :: "redis \<Rightarrow> int \<Rightarrow> string \<Rightarrow> int \<Rightarrow> string \<Rightarrow> exn + redis" where
  "redis_setex r now k ttl v =
     (if \<not> alive r then Inl ConnectionError
      else if ttl \<le> 0 then Inl ResponseError
      else Inr (r\<lparr>entries := filter (\<lambda>e. fst e \<noteq> k) (entries r) @ [(k, v, now + ttl)]\<rparr>))"

definition redis_keys :: "redis \<Rightarrow> int \<Rightarrow> string \<Rightarrow> exn + string list" where
  "redis_keys r now prefix =
     (if \<not> alive r then Inl ConnectionError
      else Inr (map fst (filter (\<lambda>e. starts_with prefix (fst e) \<and> redis_live now e) (entries r))))"

definition redis_get :: "redis \<Rightarrow> int \<Rightarrow> string \<Rightarrow> exn + string option" where
  "redis_get r now k =
     (if \<not> alive r then Inl ConnectionError
      else Inr (case filter (\<lambda>e. fst e = k \<and> redis_live now e) (entries r) of
                  [] \<Rightarrow> None
                | e # _ \<Rightarrow> Some (fst (snd e))))"

record engine =
  similarity_threshold :: real
  time_window_hours :: int
  content_hash_enabled :: bool
  semantic_analysis :: bool
  redis_client :: "redis option"
  content_hashes :: "string set"
  content_fingerprints :: "(string \<times> fingerprint) list"
  processed_items :: "(string \<times> int) list"

section \<open>DeduplicationEngine: the store helpers\<close>

text \<open>Every helper has its own \<open>try\<close>/\<open>except\<close>; the \<open>Inl\<close> branches below are its handler.\<close>

definition is_hash_duplicate :: "engine \<Rightarrow> int \<Rightarrow> string \<Rightarrow> bool" where
  "is_hash_duplicate E now content_hash =
     (case redis_client E of
        Some r \<Rightarrow> (case redis_exists r now (''hash:'' @ content_hash) of
                     Inl e \<Rightarrow> False
                   | Inr b \<Rightarrow> b)
      | None \<Rightarrow> content_hash \<in> content_hashes E)"

definition store_content_hash :: "engine \<Rightarrow> int \<Rightarrow> string \<Rightarrow> string \<Rightarrow> engine" where
  "store_content_hash E now content_hash content_id =
     (let expire_seconds = time_window_hours E * 3600
      in case redis_client E of
           Some r \<Rightarrow> (case redis_setex r now (''hash:'' @ content_hash) expire_seconds content_id of
                        Inl e \<Rightarrow> E
                      | Inr r' \<Rightarrow> E\<lparr>redis_client := Some r'\<rparr>)
         | None \<Rightarrow> E\<lparr>content_hashes := insert content_hash (content_hashes E)\<rparr>)"

fun load_fingerprints ::
  "lib \<Rightarrow> redis \<Rightarrow> int \<Rightarrow> string list \<Rightarrow> (string \<times> fingerprint) list
   \<Rightarrow> exn + (string \<times> fingerprint) list" where
  \<comment> \<open>the loop over the keys: \<open>key.split(':', 1)[1]\<close> is the key without \<open>fingerprint:\<close>\<close>
  "load_fingerprints L r now [] fingerprints = Inr fingerprints"
| "load_fingerprints L r now (key # keys) fingerprints =
     (case redis_get r now key of
        Inl e \<Rightarrow> Inl e
      | Inr None \<Rightarrow> load_fingerprints L r now keys fingerprints
      | Inr (Some data) \<Rightarrow>
          (if data = [] then load_fingerprints L r now keys fingerprints
           else case json_loads L data of
                  Inl e \<Rightarrow> Inl e
                | Inr fp \<Rightarrow> load_fingerprints L r now keys
                              (dict_put (drop (length ''fingerprint:'') key) fp fingerprints)))"

definition get_stored_fingerprints :: "lib \<Rightarrow> engine \<Rightarrow> int \<Rightarrow> (string \<times> fingerprint) list" where
  "get_stored_fingerprints L E now =
     (case redis_client E of
        Some r \<Rightarrow> (case redis_keys r now ''fingerprint:'' of
                     Inl e \<Rightarrow> []
                   | Inr keys \<Rightarrow> (case load_fingerprints L r now keys [] of
                                    Inl e \<Rightarrow> []
                                  | Inr fps \<Rightarrow> fps))
      | None \<Rightarrow> content_fingerprints E)"

fun semantic_loop ::
  "lib \<Rightarrow> real \<Rightarrow> fingerprint \<Rightarrow> (string \<times> fingerprint) list \<Rightarrow> real \<Rightarrow> bool \<times> string \<times> real" where
  \<comment> \<open>the \<open>for\<close> loop of \<open>_check_semantic_similarity\<close>; the last argument is
      \<open>max_similarity\<close>\<close>
  "semantic_loop L threshold fp [] max_similarity = (False, ''semantically_unique'', max_similarity)"
| "semantic_loop L threshold fp ((stored_id, stored_fingerprint) # rest) max_similarity =
     (let similarity = calculate_similarity L fp stored_fingerprint
      in if max_similarity < similarity
         then (if threshold \<le> similarity
               then (True, ''semantic_similar_to_'' @ stored_id, similarity)
               else semantic_loop L threshold fp rest similarity)
         else semantic_loop L threshold fp rest max_similarity)"

definition check_semantic_similarity ::
  "lib \<Rightarrow> engine \<Rightarrow> int \<Rightarrow> fingerprint \<Rightarrow> string \<Rightarrow> bool \<times> string \<times> real" where
  \<comment> \<open>the handler of this function, which returns \<open>(False, "similarity_error", 0.0)\<close>,
      has no branch here: the two functions called in the body handle their own errors\<close>
  "check_semantic_similarity L E now fp content_id =
     semantic_loop L (similarity_threshold E) fp (get_stored_fingerprints L E now) 0"

definition store_fingerprint :: "lib \<Rightarrow> engine \<Rightarrow> int \<Rightarrow> string \<Rightarrow> fingerprint \<Rightarrow> engine" where
  "store_fingerprint L E now content_id fp =
     (let expire_seconds = time_window_hours E * 3600
      in case json_dumps L fp of
           Inl e \<Rightarrow> E
         | Inr fingerprint_data \<Rightarrow>
             (case redis_client E of
                Some r \<Rightarrow> (case redis_setex r now (''fingerprint:'' @ content_id)
                                   expire_seconds fingerprint_data of
                             Inl e \<Rightarrow> E
                           | Inr r' \<Rightarrow> E\<lparr>redis_client := Some r'\<rparr>)
              | None \<Rightarrow> E\<lparr>content_fingerprints := dict_put content_id fp (content_fingerprints E)\<rparr>))"

definition is_url_duplicate :: "lib \<Rightarrow> engine \<Rightarrow> int \<Rightarrow> string \<Rightarrow> bool" where
  "is_url_duplicate L E now url =
     (case md5_hex L url of
        Inl e \<Rightarrow> False
      | Inr url_hash \<Rightarrow>
          (case redis_client E of
             Some r \<Rightarrow> (case redis_exists r now (''url:'' @ url_hash) of
                          Inl e \<Rightarrow> False
                        | Inr b \<Rightarrow> b)
           | None \<Rightarrow> url_hash \<in> fst ` set (processed_items E)))"

definition store_processed_url :: "lib \<Rightarrow> engine \<Rightarrow> int \<Rightarrow> string \<Rightarrow> string \<Rightarrow> engine" where
  "store_processed_url L E now url content_id =
     (case md5_hex L url of
        Inl e \<Rightarrow> E
      | Inr url_hash \<Rightarrow>
          (let expire_seconds = time_window_hours E * 3600
           in case redis_client E of
                Some r \<Rightarrow> (case redis_setex r now (''url:'' @ url_hash) expire_seconds content_id of
                             Inl e \<Rightarrow> E
                           | Inr r' \<Rightarrow> E\<lparr>redis_client := Some r'\<rparr>)
              | None \<Rightarrow> E\<lparr>processed_items := dict_put url_hash now (processed_items E)\<rparr>))"

definition record_processed_item :: "lib \<Rightarrow> engine \<Rightarrow> int \<Rightarrow> string \<Rightarrow> engine" where
  "record_processed_item L E now content_id =
     (let expire_seconds = time_window_hours E * 3600
      in case redis_client E of
           Some r \<Rightarrow> (case redis_setex r now (''processed:'' @ content_id)
                              expire_seconds (isoformat L now) of
                        Inl e \<Rightarrow> E
                      | Inr r' \<Rightarrow> E\<lparr>redis_client := Some r'\<rparr>)
         | None \<Rightarrow> E)"

definition clean_expired_entries :: "engine \<Rightarrow> int \<Rightarrow> engine" where
  \<comment> \<open>only the in-memory tables are swept: the URL timestamps by age, the fingerprints
      by number; \<open>content_hashes\<close> is not touched\<close>
  "clean_expired_entries E now =
     (case redis_client E of
        Some r \<Rightarrow> E
      | None \<Rightarrow>
          (let E1 = E\<lparr>processed_items :=
                        filter (\<lambda>(key, timestamp). \<not> (time_window_hours E * 3600 < now - timestamp))
                               (processed_items E)\<rparr>
           in if 10000 < length (content_fingerprints E1)
              then E1\<lparr>content_fingerprints := drop 5000 (content_fingerprints E1)\<rparr>
              else E1))"

section \<open>DeduplicationEngine.is\_duplicate\<close>

type_synonym verdict = "bool \<times> string \<times> real"

definition is_duplicate_body ::
  "lib \<Rightarrow> engine \<Rightarrow> int \<Rightarrow> string \<Rightarrow> string \<Rightarrow> string \<Rightarrow> engine \<times> (exn + verdict)" where
  \<comment> \<open>the body of the \<open>try\<close>: \<open>Inl\<close> is an exception that leaves it, with the engine as
      it was when the exception was raised\<close>
  "is_duplicate_body L E now content title url =
     (let E0 = clean_expired_entries E now;
          content_id = title @ ''_'' @ url @ ''_'' @ take 100 content;
          hash_stage =
            (if content_hash_enabled E0
             then (case create_content_hash L content of
                     Inl e \<Rightarrow> (E0, Inl e)
                   | Inr content_hash \<Rightarrow>
                       if is_hash_duplicate E0 now content_hash
                       then (E0, Inr (Some (True, ''exact_duplicate'', 1)))
                       else (store_content_hash E0 now content_hash content_id, Inr None))
             else (E0, Inr None))
      in case hash_stage of
           (E1, Inl e) \<Rightarrow> (E1, Inl e)
         | (E1, Inr (Some v)) \<Rightarrow> (E1, Inr v)
         | (E1, Inr None) \<Rightarrow>
            (let semantic_stage =
                   (if semantic_analysis E1
                    then (let fp = create_semantic_fingerprint L content;
                              similarity_result = check_semantic_similarity L E1 now fp content_id
                          in if fst similarity_result then (E1, Some similarity_result)
                             else (store_fingerprint L E1 now content_id fp, None))
                    else (E1, None))
             in case semantic_stage of
                  (E2, Some v) \<Rightarrow> (E2, Inr v)
                | (E2, None) \<Rightarrow>
                   (let url_stage =
                          (if url \<noteq> []
                           then (if is_url_duplicate L E2 now url
                                 then (E2, Some (True, ''url_duplicate'', round_double 0.9))
                                 else (store_processed_url L E2 now url content_id, None))
                           else (E2, None))
                    in case url_stage of
                         (E3, Some v) \<Rightarrow> (E3, Inr v)
                       | (E3, None) \<Rightarrow>
                           (record_processed_item L E3 now content_id,
                            Inr (False, ''unique'', 0)))))"

definition is_duplicate ::
  "lib \<Rightarrow> engine \<Rightarrow> int \<Rightarrow> string \<Rightarrow> string \<Rightarrow> string \<Rightarrow> engine \<times> verdict" where
  \<comment> \<open>the \<open>except Exception\<close> of \<open>is_duplicate\<close>\<close>
  "is_duplicate L E now content title url =
     (case is_duplicate_body L E now content title url of
        (E', Inl e) \<Rightarrow> (E', (False, ''error_fallback'', 0))
      | (E', Inr v) \<Rightarrow> (E', v))"

definition init_engine :: "real \<Rightarrow> int \<Rightarrow> bool \<Rightarrow> bool \<Rightarrow> redis option \<Rightarrow> engine" where
  \<comment> \<open>\<open>DeduplicationEngine.__init__\<close>: the four settings, the client (\<open>None\<close> when the
      connection failed) and the empty in-memory tables\<close>
  "init_engine threshold hours hash_enabled semantic client =
     \<lparr> similarity_threshold = threshold,
       time_window_hours = hours,
       content_hash_enabled = hash_enabled,
       semantic_analysis = semantic,
       redis_client = client,
       content_hashes = {},
       content_fingerprints = [],
       processed_items = [] \<rparr>"

section \<open>difflib.SequenceMatcher\<close>

text \<open>
  \<open>SequenceMatcher(None, a, b).ratio()\<close> as Python's library documents it, for a second
  string shorter than 200 characters (the length from which the library drops frequent
  characters): the longest block common to both strings is found, the one that starts
  earliest in \<open>a\<close> and, of those, earliest in \<open>b\<close>; the pieces to the left of the block
  and the pieces to its right are matched in the same way; the ratio is twice the
  number of matched characters over the sum of the lengths, and 1 for two empty strings.
\<close>

fun common_prefix_len :: "string \<Rightarrow> string \<Rightarrow> nat" where
  "common_prefix_len (x # xs) (y # ys) = (if x = y then Suc (common_prefix_len xs ys) else 0)"
| "common_prefix_len xs ys = 0"

definition find_longest_match :: "string \<Rightarrow> string \<Rightarrow> nat \<times> nat \<times> nat" where
  \<comment> \<open>(start in \<open>a\<close>, start in \<open>b\<close>, size); a later block replaces the best one only when
      it is longer\<close>
  "find_longest_match a b =
     fold (\<lambda>i best.
             fold (\<lambda>j best'.
                     let k = common_prefix_len (drop i a) (drop j b)
                     in if snd (snd best') < k then (i, j, k) else best')
                  [0 ..< length b] best)
          [0 ..< length a] (0, 0, 0)"

function matching_chars :: "string \<Rightarrow> string \<Rightarrow> nat" where
  \<comment> \<open>a block of positive size starts inside \<open>a\<close>; the test \<open>i < length a\<close> only makes
      that visible to the termination proof\<close>
  "matching_chars a b =
     (let m = find_longest_match a b; i = fst m; j = fst (snd m); k = snd (snd m)
      in if k = 0 \<or> length a \<le> i then 0
         else k + matching_chars (take i a) (take j b)
                + matching_chars (drop (i + k) a) (drop (j + k) b))"
  by pat_completeness auto
termination
  by (relation "measure (\<lambda>(a, b). length a)") auto

definition difflib_ratio :: "string \<Rightarrow> string \<Rightarrow> real" where
  "difflib_ratio a b =
     (let total = length a + length b
      in if total = 0 then 1 else fdiv (fmul 2 (real (matching_chars a b))) (real total))"

section \<open>Concrete inputs\<close>

text \<open>
  A stand-in for the libraries, to run the model on concrete inputs: the hashes are the
  identity, the tokenisers split at white space and at full stops, the stemmer changes
  nothing, every text has reading ease 60, a fingerprint is serialised to its key words
  only and nothing is read back. \<open>ratio\<close> is the model of difflib above.
\<close>

definition stub_lib :: lib where
  "stub_lib =
     \<lparr> sha256_hex = (\<lambda>s. Inr s),
       md5_hex = (\<lambda>s. Inr s),
       word_tokenize = (\<lambda>s. Inr (split_ws s)),
       sent_tokenize = (\<lambda>s. Inr (filter (\<lambda>x. x \<noteq> []) (split_sep s ''.''))),
       stem = (\<lambda>s. Inr s),
       stopwords = [],
       flesch_reading_ease = (\<lambda>s. Inr 60),
       ratio = difflib_ratio,
       json_dumps = (\<lambda>fp. Inr (join '' '' (key_words fp))),
       json_loads = (\<lambda>s. Inl (Raised ''JSONDecodeError'')),
       isoformat = (\<lambda>t. ''1970-01-01T00:00:00'') \<rparr>"

definition failing_hash_lib :: lib where
  \<comment> \<open>the same, with a hash function that raises (as \<open>encode\<close> does on a lone surrogate)\<close>
  "failing_hash_lib = stub_lib\<lparr> sha256_hex := (\<lambda>s. Inl (Raised ''UnicodeEncodeError'')) \<rparr>"

definition stray_input :: string where
  \<comment> \<open>\<^verbatim>\<open>, ", "'").replace(").replace(\<close>\<close>
  "stray_input = [CHR '','', CHR '' '', CHR 0x22] @ quote_pattern @ [CHR 0x22, CHR '')''] @ ''.replace(''"

definition capped_text :: string where
  "capped_text = ''said robot aws privacy gdpr startup funding ipo app mobile webserver''"

definition empty_fp :: fingerprint where
  \<comment> \<open>the fingerprint of the empty text\<close>
  "empty_fp = create_semantic_fingerprint stub_lib []"

definition tide_fp :: fingerprint where
  "tide_fp = create_basic_fingerprint ''tide''"

definition diet_fp :: fingerprint where
  "diet_fp = create_basic_fingerprint ''diet''"

definition abcd_fp :: fingerprint where
  "abcd_fp = create_basic_fingerprint ''abcd''"

definition bcde_fp :: fingerprint where
  "bcde_fp = create_basic_fingerprint ''bcde''"

definition local_engine :: engine where
  \<comment> \<open>the default settings (the threshold is the literal 0.8), without Redis\<close>
  "local_engine = init_engine (round_double 0.8) 24 True True None"

definition remote_engine :: engine where
  \<comment> \<open>the default settings, with an empty Redis\<close>
  "remote_engine = init_engine (round_double 0.8) 24 True True (Some \<lparr> alive = True, entries = [] \<rparr>)"

definition down_engine :: engine where
  \<comment> \<open>the default settings, with a Redis that stopped answering after the start\<close>
  "down_engine = init_engine (round_double 0.8) 24 True True (Some \<lparr> alive = False, entries = [] \<rparr>)"

definition zero_window_engine :: engine where
  \<comment> \<open>\<open>time_window_hours = 0\<close>, without Redis\<close>
  "zero_window_engine = init_engine (round_double 0.8) 0 True True None"

definition zero_threshold_engine :: engine where
  "zero_threshold_engine =
     (init_engine 0 24 True True None)\<lparr> content_fingerprints := [(''stored'', tide_fp)] \<rparr>"

definition boundary_engine :: engine where
  \<comment> \<open>the default settings, without Redis, with one stored fingerprint\<close>
  "boundary_engine = local_engine\<lparr> content_fingerprints := [(''stored'', tide_fp)] \<rparr>"

section \<open>The similarity terms in the words of the specification\<close>

definition jaccard :: "'a set \<Rightarrow> 'a set \<Rightarrow> real" where
  \<comment> \<open>the Jaccard index \<open>|A \<inter> B| / |A \<union> B|\<close>\<close>
  "jaccard A B = real (card (A \<inter> B)) / real (card (A \<union> B))"

definition structure_sim_spec :: "nat \<Rightarrow> nat \<Rightarrow> real" where
  \<comment> \<open>\<open>1 - |wordCountA - wordCountB| / max(wordCountA, wordCountB, 1)\<close>\<close>
  "structure_sim_spec a b = 1 - \<bar>real a - real b\<bar> / max (max (real a) (real b)) 1"

section \<open>Properties of the fingerprinter\<close>

text \<open>
  C8 (idempotent normalisation). The claim is that normalising twice gives what
  normalising once gives. On the input \<^verbatim>\<open>, ", "'").replace(").replace(\<close> the single
  \<open>replace\<close> of line 78 rewrites the inner occurrence of its pattern to an apostrophe,
  and the result is the pattern itself; a second normalisation rewrites that to one
  apostrophe. The code is evaluated at this input.
\<close>

theorem normalize_content_not_idempotent:
  "normalize_content stray_input = quote_pattern
   \<and> normalize_content (normalize_content stray_input) = [CHR 0x27]
   \<and> normalize_content (normalize_content stray_input) \<noteq> normalize_content stray_input"
  by code_simp

lemma take_filter_split:
  assumes "length (filter P pre) < n" and "P x"
  shows "x \<in> set (take n (filter P (pre @ x # post)))"
proof -
  have "filter P (pre @ x # post) = filter P pre @ x # filter P post"
    using assms(2) by simp
  moreover have "x \<in> set (take n (filter P pre @ x # filter P post))"
    using assms(1) by (simp add: take_Cons')
  ultimately show ?thesis by simp
qed

text \<open>
  C10 (topic indicators are matched as substrings), as amended: a term of the vocabulary
  that occurs anywhere in the lower-cased text, also inside a longer word, is among the
  topic indicators, provided fewer than ten of the terms before it in the vocabulary
  occur in the text too (the result keeps the first ten matches).
\<close>

theorem topic_indicator_substring_included:
  assumes "tech_indicators = pre @ indicator # post"
    and "py_in indicator (lower content)"
    and "length (filter (\<lambda>i. py_in i (lower content)) pre) < 10"
  shows "indicator \<in> set (extract_topic_indicators content)"
  unfolding extract_topic_indicators_def Let_def assms(1)
  using assms(2,3) by (rule take_filter_split[rotated])

text \<open>The text of the claim's example: \<open>said\<close> contains \<open>ai\<close>, the first term.\<close>

theorem topic_indicator_substring_included_witness:
  "''ai'' \<in> set (extract_topic_indicators ''He said hello'')"
proof -
  have 1: "tech_indicators = [] @ ''ai'' # tl tech_indicators" by code_simp
  have 2: "py_in ''ai'' (lower ''He said hello'')" by code_simp
  have 3: "length (filter (\<lambda>i. py_in i (lower ''He said hello'')) []) < 10" by simp
  show ?thesis using topic_indicator_substring_included[OF 1 2 3] .
qed

text \<open>
  Against C10 as stated: in a text where ten earlier terms match, \<open>web\<close>, which occurs
  inside \<open>webserver\<close>, is not among the topic indicators.
\<close>

theorem topic_indicator_cap_counterexample:
  "''web'' \<in> set tech_indicators \<and> py_in ''web'' (lower capped_text)
   \<and> ''web'' \<notin> set (extract_topic_indicators capped_text)"
  by code_simp

text \<open>
  C6 (reading ease), as amended: the field is 50 when the sentence tokeniser or the
  readability score raises (the basic fingerprint is returned), 0 when the text is empty
  or white space and the tokeniser succeeds, and the library's score otherwise; the field
  always has a value.
\<close>

theorem reading_ease_cases:
  "reading_ease (create_semantic_fingerprint L content) =
     (case sent_tokenize L content of
        Inl e \<Rightarrow> 50
      | Inr sents \<Rightarrow>
          if strip content = [] then 0
          else (case flesch_reading_ease L content of Inl e \<Rightarrow> 50 | Inr ease \<Rightarrow> ease))"
  by (simp add: create_semantic_fingerprint_def create_basic_fingerprint_def Let_def
           split: sum.splits)

text \<open>
  Against C6 as stated: for the empty text, with a tokeniser that returns no sentence
  for it, the reading ease is 0, not 50.
\<close>

theorem reading_ease_empty_text_counterexample:
  "sent_tokenize stub_lib [] = Inr [] \<and> reading_ease (create_semantic_fingerprint stub_lib []) = 0
   \<and> reading_ease (create_semantic_fingerprint stub_lib []) \<noteq> 50"
  by code_simp

section \<open>The score of the concrete fingerprints\<close>

lemma calculate_similarity_from_terms:
  assumes "calculate_word_similarity (key_words fp1) (key_words fp2) = w"
    and "calculate_sentence_similarity L (key_sentences fp1) (key_sentences fp2) = s"
    and "calculate_topic_similarity (topic_indicators fp1) (topic_indicators fp2) = t"
    and "calculate_structure_similarity (content_structure fp1) (content_structure fp2) = Inr st"
  shows "calculate_similarity L fp1 fp2
         = fadd (fadd (fadd (fmul w (round_double 0.4)) (fmul s (round_double 0.3)))
                      (fmul t (round_double 0.2)))
                (fmul st (round_double 0.1))"
  using assms by (simp add: calculate_similarity_def)

lemma key_sentences_one_word:
  "key_sentences tide_fp = [''tide'']" "key_sentences diet_fp = [''diet'']"
  "key_sentences abcd_fp = [''abcd'']" "key_sentences bcde_fp = [''bcde'']"
  "key_sentences empty_fp = []"
  by code_simp+

lemma stub_ratio:
  "ratio stub_lib (lower ''tide'') (lower ''tide'') = 1"
  "ratio stub_lib (lower ''tide'') (lower ''diet'') = 1 / 4"
  "ratio stub_lib (lower ''diet'') (lower ''tide'') = 1 / 2"
  "ratio stub_lib (lower ''abcd'') (lower ''bcde'') = 3 / 4"
  "ratio stub_lib (lower ''bcde'') (lower ''abcd'') = 3 / 4"
  by code_simp+

lemma sentence_similarity_one_word:
  "calculate_sentence_similarity stub_lib (key_sentences tide_fp) (key_sentences tide_fp) = 1"
  "calculate_sentence_similarity stub_lib (key_sentences tide_fp) (key_sentences diet_fp) = 1 / 4"
  "calculate_sentence_similarity stub_lib (key_sentences diet_fp) (key_sentences tide_fp) = 1 / 2"
  "calculate_sentence_similarity stub_lib (key_sentences empty_fp) (key_sentences tide_fp) = 0"
  "calculate_sentence_similarity stub_lib (key_sentences empty_fp) (key_sentences empty_fp) = 0"
  by (simp_all add: calculate_sentence_similarity_def key_sentences_one_word stub_ratio)

lemma similarity_tide_tide:
  "calculate_similarity stub_lib tide_fp tide_fp = 7205759403792793 / 9007199254740992"
proof -
  have w: "calculate_word_similarity (key_words tide_fp) (key_words tide_fp) = 1" by code_simp
  have s: "calculate_sentence_similarity stub_lib (key_sentences tide_fp) (key_sentences tide_fp) = 1"
    by (simp add: sentence_similarity_one_word)
  have t: "calculate_topic_similarity (topic_indicators tide_fp) (topic_indicators tide_fp) = 0"
    by code_simp
  have st: "calculate_structure_similarity (content_structure tide_fp) (content_structure tide_fp)
            = Inr 1"
    by code_simp
  have n: "fadd (fadd (fadd (fmul 1 (round_double 0.4)) (fmul 1 (round_double 0.3)))
                      (fmul 0 (round_double 0.2)))
                (fmul 1 (round_double 0.1))
           = 7205759403792793 / 9007199254740992"
    by code_simp
  show ?thesis unfolding calculate_similarity_from_terms[OF w s t st] by (rule n)
qed

lemma similarity_empty_tide: "calculate_similarity stub_lib empty_fp tide_fp = 0"
proof -
  have w: "calculate_word_similarity (key_words empty_fp) (key_words tide_fp) = 0" by code_simp
  have s: "calculate_sentence_similarity stub_lib (key_sentences empty_fp) (key_sentences tide_fp) = 0"
    by (simp add: sentence_similarity_one_word)
  have t: "calculate_topic_similarity (topic_indicators empty_fp) (topic_indicators tide_fp) = 0"
    by code_simp
  have st: "calculate_structure_similarity (content_structure empty_fp) (content_structure tide_fp)
            = Inr 0"
    by code_simp
  have n: "fadd (fadd (fadd (fmul 0 (round_double 0.4)) (fmul 0 (round_double 0.3)))
                      (fmul 0 (round_double 0.2)))
                (fmul 0 (round_double 0.1))
           = 0"
    by code_simp
  show ?thesis unfolding calculate_similarity_from_terms[OF w s t st] by (rule n)
qed

section \<open>Properties of the similarity score\<close>

text \<open>
  C7 (structure similarity is total). The claim is that the divisor is at least 1, so
  that two word counts of 0 give similarity 1. In the code the 1 is only the default for
  a structure without the key \<open>word_count\<close>: for two structures whose word count is 0,
  as for the fingerprints of two empty texts, the divisor is 0, the division raises, and
  the handler of \<open>_calculate_similarity\<close> makes the whole score 0.
\<close>

theorem structure_similarity_zero_word_counts:
  "calculate_structure_similarity [(''word_count'', PInt 0)] [(''word_count'', PInt 0)]
     = Inl ZeroDivisionError
   \<and> calculate_structure_similarity (content_structure empty_fp) (content_structure empty_fp)
     = Inl ZeroDivisionError
   \<and> calculate_similarity stub_lib empty_fp empty_fp = 0"
  by code_simp

section \<open>Properties of the semantic check\<close>

lemma semantic_loop_first_crossing:
  assumes "mx < thr"
    and "\<forall>p \<in> set pre. calculate_similarity L fp (snd p) < thr"
    and "thr \<le> calculate_similarity L fp sfp"
  shows "semantic_loop L thr fp (pre @ (sid, sfp) # post) mx
         = (True, ''semantic_similar_to_'' @ sid, calculate_similarity L fp sfp)"
  using assms
proof (induction pre arbitrary: mx)
  case Nil
  then show ?case by simp
next
  case (Cons p pre)
  obtain i f where p: "p = (i, f)" by (cases p)
  have low: "calculate_similarity L fp f < thr" using Cons.prems(2) p by simp
  have rest: "\<forall>q \<in> set pre. calculate_similarity L fp (snd q) < thr"
    using Cons.prems(2) by simp
  show ?case
  proof (cases "mx < calculate_similarity L fp f")
    case True
    then show ?thesis
      using low Cons.IH[OF low rest Cons.prems(3)] by (simp add: p Let_def)
  next
    case False
    then show ?thesis
      using Cons.IH[OF Cons.prems(1) rest Cons.prems(3)] by (simp add: p Let_def)
  qed
qed

text \<open>
  For a positive threshold the loop returns the first stored entry, in the order of
  iteration, whose similarity is at least the threshold, equality included.
\<close>

lemma semantic_first_crossing:
  assumes "0 < similarity_threshold E"
    and "get_stored_fingerprints L E now = before @ (stored_id, stored_fp) # rest"
    and "\<forall>p \<in> set before. calculate_similarity L fp (snd p) < similarity_threshold E"
    and "similarity_threshold E \<le> calculate_similarity L fp stored_fp"
  shows "check_semantic_similarity L E now fp content_id
         = (True, ''semantic_similar_to_'' @ stored_id, calculate_similarity L fp stored_fp)"
  unfolding check_semantic_similarity_def assms(2)
  using assms(1,3,4) by (rule semantic_loop_first_crossing)

text \<open>
  The score is a sum of doubles. For two fingerprints with equal key words, equal key
  sentence, no topics and equal word counts it is \<open>0.4 + 0.3 + 0.0 + 0.1\<close> added from
  the left, which is the double below 0.8, and under the default threshold the pair is
  not reported.
\<close>

lemma default_threshold_rounded_sum:
  "calculate_similarity stub_lib tide_fp tide_fp = 7205759403792793 / 9007199254740992
   \<and> similarity_threshold boundary_engine = 7205759403792794 / 9007199254740992
   \<and> fst (check_semantic_similarity stub_lib boundary_engine 0 tide_fp ''new'') = False"
proof -
  have thr: "similarity_threshold boundary_engine = 7205759403792794 / 9007199254740992"
    by code_simp
  have stored: "get_stored_fingerprints stub_lib boundary_engine 0 = [(''stored'', tide_fp)]"
    by (simp add: get_stored_fingerprints_def boundary_engine_def local_engine_def init_engine_def)
  have "fst (check_semantic_similarity stub_lib boundary_engine 0 tide_fp ''new'') = False"
    by (simp add: check_semantic_similarity_def stored thr similarity_tide_tide)
  then show ?thesis using thr similarity_tide_tide by simp
qed

text \<open>
  C3 (threshold boundary). The claim is that a stored fingerprint whose similarity
  equals the threshold is reported as a duplicate. The code compares with the threshold
  only after \<open>similarity > max_similarity\<close> has held, and \<open>max_similarity\<close> starts at
  0.0: with the threshold set to 0, a stored fingerprint of similarity 0.0, which equals
  the threshold, is not reported. The code is evaluated at this input.
\<close>

theorem semantic_zero_threshold_not_reported:
  "similarity_threshold zero_threshold_engine = 0
   \<and> calculate_similarity stub_lib empty_fp tide_fp = 0
   \<and> get_stored_fingerprints stub_lib zero_threshold_engine 0 = [(''stored'', tide_fp)]
   \<and> check_semantic_similarity stub_lib zero_threshold_engine 0 empty_fp ''new''
       = (False, ''semantically_unique'', 0)"
proof -
  have thr: "similarity_threshold zero_threshold_engine = 0"
    by (simp add: zero_threshold_engine_def init_engine_def)
  have stored: "get_stored_fingerprints stub_lib zero_threshold_engine 0 = [(''stored'', tide_fp)]"
    by (simp add: get_stored_fingerprints_def zero_threshold_engine_def init_engine_def)
  have "check_semantic_similarity stub_lib zero_threshold_engine 0 empty_fp ''new''
        = (False, ''semantically_unique'', 0)"
    by (simp add: check_semantic_similarity_def stored thr similarity_empty_tide)
  then show ?thesis using thr stored similarity_empty_tide by simp
qed

section \<open>Properties of the weighted score\<close>

lemma round_double_minus: "round_double (- x) = - round_double x"
  by (simp add: round_double_def Let_def)

lemma jaccard_word: "xs \<noteq> [] \<Longrightarrow> ys \<noteq> [] \<Longrightarrow>
   calculate_word_similarity xs ys = round_double (jaccard (set xs) (set ys))"
  by (simp add: calculate_word_similarity_def jaccard_def fdiv_def Let_def card_gt_0_iff)

lemma jaccard_topic: "xs \<noteq> [] \<Longrightarrow> ys \<noteq> [] \<Longrightarrow>
   calculate_topic_similarity xs ys = round_double (jaccard (set xs) (set ys))"
  by (simp add: calculate_topic_similarity_def jaccard_def fdiv_def Let_def card_gt_0_iff)

text \<open>
  Where the structure term is computed, the score is the weighted sum in floating-point
  arithmetic, and the word, topic and sentence terms are 0 for an empty list.
\<close>

lemma similarity_weighted_sum:
  assumes "calculate_structure_similarity (content_structure fp1) (content_structure fp2)
           = Inr structure_sim"
  shows "calculate_similarity L fp1 fp2
           = fadd (fadd (fadd (fmul (calculate_word_similarity (key_words fp1) (key_words fp2))
                                    (round_double 0.4))
                              (fmul (calculate_sentence_similarity L (key_sentences fp1)
                                       (key_sentences fp2))
                                    (round_double 0.3)))
                        (fmul (calculate_topic_similarity (topic_indicators fp1)
                                 (topic_indicators fp2))
                              (round_double 0.2)))
                  (fmul structure_sim (round_double 0.1))"
    and "key_words fp1 = [] \<or> key_words fp2 = []
         \<Longrightarrow> calculate_word_similarity (key_words fp1) (key_words fp2) = 0"
    and "topic_indicators fp1 = [] \<or> topic_indicators fp2 = []
         \<Longrightarrow> calculate_topic_similarity (topic_indicators fp1) (topic_indicators fp2) = 0"
    and "key_sentences fp1 = [] \<or> key_sentences fp2 = []
         \<Longrightarrow> calculate_sentence_similarity L (key_sentences fp1) (key_sentences fp2) = 0"
  by (auto simp: calculate_similarity_def assms calculate_word_similarity_def
        calculate_topic_similarity_def calculate_sentence_similarity_def)

text \<open>
  C4 (weighted sum). The claim is that the similarity of every pair of fingerprints is
  \<open>0.4 * wordSim + 0.3 * sentenceSim + 0.2 * topicSim + 0.1 * structureSim\<close>. For the
  fingerprints of two empty texts the three first terms are 0 and the structure term of
  the specification is 1, so the sum is 0.1; in the code the division of the structure
  term raises (both word counts are 0) and the handler returns 0. The code is evaluated
  at this input.
\<close>

theorem similarity_zero_counts_returns_zero:
  "calculate_similarity stub_lib empty_fp empty_fp = 0
   \<and> calculate_structure_similarity (content_structure empty_fp) (content_structure empty_fp)
     = Inl ZeroDivisionError
   \<and> 0.4 * calculate_word_similarity (key_words empty_fp) (key_words empty_fp)
     + 0.3 * calculate_sentence_similarity stub_lib (key_sentences empty_fp) (key_sentences empty_fp)
     + 0.2 * calculate_topic_similarity (topic_indicators empty_fp) (topic_indicators empty_fp)
     + 0.1 * structure_sim_spec (word_count empty_fp) (word_count empty_fp)
     = 0.1"
proof -
  have w: "calculate_word_similarity (key_words empty_fp) (key_words empty_fp) = 0" by code_simp
  have s: "calculate_sentence_similarity stub_lib (key_sentences empty_fp) (key_sentences empty_fp) = 0"
    by (simp add: sentence_similarity_one_word)
  have t: "calculate_topic_similarity (topic_indicators empty_fp) (topic_indicators empty_fp) = 0"
    by code_simp
  have st: "calculate_structure_similarity (content_structure empty_fp) (content_structure empty_fp)
            = Inl ZeroDivisionError"
    by code_simp
  have sp: "structure_sim_spec (word_count empty_fp) (word_count empty_fp) = 1" by code_simp
  have c: "calculate_similarity stub_lib empty_fp empty_fp = 0"
    by (simp add: calculate_similarity_def st)
  show ?thesis unfolding w s t sp using c st by simp
qed

lemma fold_max_le:
  "fold (\<lambda>y m. max m (g y)) ys (m0::real) \<le> x \<longleftrightarrow> m0 \<le> x \<and> (\<forall>y \<in> set ys. g y \<le> x)"
  by (induction ys arbitrary: m0) auto

lemma fold_fold_max_le:
  "fold (\<lambda>a m. fold (\<lambda>b m'. max m' (r a b)) ys m) xs (m0::real) \<le> x
   \<longleftrightarrow> m0 \<le> x \<and> (\<forall>a \<in> set xs. \<forall>b \<in> set ys. r a b \<le> x)"
  by (induction xs arbitrary: m0) (auto simp: fold_max_le)

lemma sentence_similarity_le:
  "calculate_sentence_similarity L xs ys \<le> x \<longleftrightarrow>
     (if xs = [] \<or> ys = [] then 0 \<le> x
      else 0 \<le> x \<and> (\<forall>a \<in> set xs. \<forall>b \<in> set ys. ratio L (lower a) (lower b) \<le> x))"
  by (simp add: calculate_sentence_similarity_def fold_fold_max_le)

lemma sentence_similarity_sym:
  assumes "\<forall>a \<in> set xs. \<forall>b \<in> set ys. ratio L (lower a) (lower b) = ratio L (lower b) (lower a)"
  shows "calculate_sentence_similarity L xs ys = calculate_sentence_similarity L ys xs"
proof -
  have sym: "ratio L (lower b) (lower a) = ratio L (lower a) (lower b)"
    if "a \<in> set xs" "b \<in> set ys" for a b
    using assms that by metis
  have swap: "(\<forall>a \<in> set xs. \<forall>b \<in> set ys. ratio L (lower a) (lower b) \<le> x)
              \<longleftrightarrow> (\<forall>b \<in> set ys. \<forall>a \<in> set xs. ratio L (lower b) (lower a) \<le> x)" for x
  proof
    assume H: "\<forall>a \<in> set xs. \<forall>b \<in> set ys. ratio L (lower a) (lower b) \<le> x"
    show "\<forall>b \<in> set ys. \<forall>a \<in> set xs. ratio L (lower b) (lower a) \<le> x"
    proof (intro ballI)
      fix b a assume "b \<in> set ys" "a \<in> set xs"
      then show "ratio L (lower b) (lower a) \<le> x" using H sym[of a b] by simp
    qed
  next
    assume H: "\<forall>b \<in> set ys. \<forall>a \<in> set xs. ratio L (lower b) (lower a) \<le> x"
    show "\<forall>a \<in> set xs. \<forall>b \<in> set ys. ratio L (lower a) (lower b) \<le> x"
    proof (intro ballI)
      fix a b assume ab: "a \<in> set xs" "b \<in> set ys"
      then have "ratio L (lower b) (lower a) \<le> x" using H by blast
      then show "ratio L (lower a) (lower b) \<le> x" unfolding sym[OF ab] .
    qed
  qed
  have "calculate_sentence_similarity L xs ys \<le> x \<longleftrightarrow> calculate_sentence_similarity L ys xs \<le> x"
    for x
    unfolding sentence_similarity_le swap[of x] by (simp add: disj_commute)
  then show ?thesis by (meson order_antisym order_refl)
qed

lemma word_similarity_sym:
  "calculate_word_similarity xs ys = calculate_word_similarity ys xs"
  by (simp add: calculate_word_similarity_def Int_commute Un_commute)

lemma topic_similarity_sym:
  "calculate_topic_similarity xs ys = calculate_topic_similarity ys xs"
  by (simp add: calculate_topic_similarity_def Int_commute Un_commute)

lemma structure_similarity_sym:
  "calculate_structure_similarity s1 s2 = calculate_structure_similarity s2 s1"
proof -
  have "\<bar>round_double (x - y)\<bar> = \<bar>round_double (y - x)\<bar>" for x y :: real
    using round_double_minus[of "x - y"] by simp
  then show ?thesis
    by (simp add: calculate_structure_similarity_def Let_def fsub_def abs_minus_commute
          max.commute disj_commute)
qed

text \<open>
  C9 (symmetry), as amended: the similarity of two fingerprints does not depend on their
  order whenever the library's ratio gives the same value in both orders on every pair
  of their lower-cased key sentences; the word, topic and structure terms are symmetric
  without condition.
\<close>

theorem similarity_symmetric_for_symmetric_ratio:
  assumes "\<forall>a \<in> set (key_sentences fp1). \<forall>b \<in> set (key_sentences fp2).
             ratio L (lower a) (lower b) = ratio L (lower b) (lower a)"
  shows "calculate_similarity L fp1 fp2 = calculate_similarity L fp2 fp1"
  unfolding calculate_similarity_def
  by (simp add: sentence_similarity_sym[OF assms] word_similarity_sym[of "key_words fp1"]
        topic_similarity_sym[of "topic_indicators fp1"]
        structure_similarity_sym[of "content_structure fp1"])

text \<open>Two sentences on which the ratio is the same in both orders.\<close>

theorem similarity_symmetric_witness:
  "calculate_similarity stub_lib abcd_fp bcde_fp = calculate_similarity stub_lib bcde_fp abcd_fp"
proof -
  have h: "\<forall>a \<in> set (key_sentences abcd_fp). \<forall>b \<in> set (key_sentences bcde_fp).
             ratio stub_lib (lower a) (lower b) = ratio stub_lib (lower b) (lower a)"
    by (simp add: key_sentences_one_word stub_ratio)
  show ?thesis using similarity_symmetric_for_symmetric_ratio[OF h] .
qed

text \<open>
  Against C9 as stated: \<open>SequenceMatcher.ratio\<close> depends on the order of its arguments.
  For \<open>tide\<close> and \<open>diet\<close> it is 0.25 in one order and 0.5 in the other (the example
  of Python's documentation), and so the similarity of the two fingerprints differs: the
  double nearest to 0.175 in one order, 0.25 in the other.
\<close>

theorem similarity_asymmetric_counterexample:
  "difflib_ratio ''tide'' ''diet'' = 1 / 4 \<and> difflib_ratio ''diet'' ''tide'' = 1 / 2
   \<and> calculate_similarity stub_lib tide_fp diet_fp = round_double (7 / 40)
   \<and> calculate_similarity stub_lib diet_fp tide_fp = 1 / 4
   \<and> calculate_similarity stub_lib tide_fp diet_fp \<noteq> calculate_similarity stub_lib diet_fp tide_fp"
proof -
  have r1: "difflib_ratio ''tide'' ''diet'' = 1 / 4" by code_simp
  have r2: "difflib_ratio ''diet'' ''tide'' = 1 / 2" by code_simp
  have w1: "calculate_word_similarity (key_words tide_fp) (key_words diet_fp) = 0" by code_simp
  have w2: "calculate_word_similarity (key_words diet_fp) (key_words tide_fp) = 0" by code_simp
  have s1: "calculate_sentence_similarity stub_lib (key_sentences tide_fp) (key_sentences diet_fp)
            = 1 / 4"
    by (simp add: sentence_similarity_one_word)
  have s2: "calculate_sentence_similarity stub_lib (key_sentences diet_fp) (key_sentences tide_fp)
            = 1 / 2"
    by (simp add: sentence_similarity_one_word)
  have t1: "calculate_topic_similarity (topic_indicators tide_fp) (topic_indicators diet_fp) = 0"
    by code_simp
  have t2: "calculate_topic_similarity (topic_indicators diet_fp) (topic_indicators tide_fp) = 0"
    by code_simp
  have st1: "calculate_structure_similarity (content_structure tide_fp) (content_structure diet_fp)
             = Inr 1"
    by code_simp
  have st2: "calculate_structure_similarity (content_structure diet_fp) (content_structure tide_fp)
             = Inr 1"
    by code_simp
  have v: "round_double (7 / 40) = 3152519739159347 / 18014398509481984" by code_simp
  have n1: "fadd (fadd (fadd (fmul 0 (round_double 0.4)) (fmul (1 / 4) (round_double 0.3)))
                       (fmul 0 (round_double 0.2)))
                 (fmul 1 (round_double 0.1))
            = 3152519739159347 / 18014398509481984"
    by code_simp
  have n2: "fadd (fadd (fadd (fmul 0 (round_double 0.4)) (fmul (1 / 2) (round_double 0.3)))
                       (fmul 0 (round_double 0.2)))
                 (fmul 1 (round_double 0.1))
            = 1 / 4"
    by code_simp
  have a: "calculate_similarity stub_lib tide_fp diet_fp = 3152519739159347 / 18014398509481984"
    unfolding calculate_similarity_from_terms[OF w1 s1 t1 st1] by (rule n1)
  have b: "calculate_similarity stub_lib diet_fp tide_fp = 1 / 4"
    unfolding calculate_similarity_from_terms[OF w2 s2 t2 st2] by (rule n2)
  show ?thesis unfolding a b v using r1 r2 by simp
qed

section \<open>Properties of the duplicate check\<close>

lemma clean_keeps:
  "content_hash_enabled (clean_expired_entries E now) = content_hash_enabled E"
  "redis_client (clean_expired_entries E now) = redis_client E"
  "content_hashes (clean_expired_entries E now) = content_hashes E"
  by (auto simp: clean_expired_entries_def Let_def split: option.splits)

lemma clean_keeps_hash_duplicate:
  "is_hash_duplicate (clean_expired_entries E now) t h = is_hash_duplicate E t h"
  by (simp add: is_hash_duplicate_def clean_keeps split: option.splits)

lemma second_call_exact:
  assumes "content_hash_enabled E"
    and "sha256_hex L (normalize_content c) = Inr h"
    and "is_hash_duplicate E now h"
  shows "snd (is_duplicate L E now c t u) = (True, ''exact_duplicate'', 1)"
  using assms
  by (simp add: is_duplicate_def is_duplicate_body_def create_content_hash_def Let_def
        clean_keeps clean_keeps_hash_duplicate)

lemma first_call_local:
  assumes "sha256_hex L (normalize_content c) = Inr h"
  shows "snd (is_duplicate L (init_engine thr hrs True sem None) t1 c t u) = (False, ''unique'', 0)
       \<and> content_hash_enabled (fst (is_duplicate L (init_engine thr hrs True sem None) t1 c t u))
       \<and> is_hash_duplicate (fst (is_duplicate L (init_engine thr hrs True sem None) t1 c t u)) t2 h"
  using assms
  by (auto simp: is_duplicate_def is_duplicate_body_def create_content_hash_def Let_def
        init_engine_def clean_expired_entries_def is_hash_duplicate_def store_content_hash_def
        check_semantic_similarity_def get_stored_fingerprints_def store_fingerprint_def
        is_url_duplicate_def store_processed_url_def record_processed_item_def
        split: sum.splits)

lemma first_call_remote:
  assumes "sha256_hex L (normalize_content c) = Inr h" and "0 < hrs" and "t2 < t1 + hrs * 3600"
  shows "snd (is_duplicate L (init_engine thr hrs True sem (Some \<lparr>alive = True, entries = []\<rparr>)) t1 c t u)
           = (False, ''unique'', 0)
       \<and> content_hash_enabled (fst (is_duplicate L (init_engine thr hrs True sem (Some \<lparr>alive = True, entries = []\<rparr>)) t1 c t u))
       \<and> is_hash_duplicate (fst (is_duplicate L (init_engine thr hrs True sem (Some \<lparr>alive = True, entries = []\<rparr>)) t1 c t u)) t2 h"
  using assms
  by (auto simp: is_duplicate_def is_duplicate_body_def create_content_hash_def Let_def
        init_engine_def clean_expired_entries_def is_hash_duplicate_def store_content_hash_def
        check_semantic_similarity_def get_stored_fingerprints_def store_fingerprint_def
        is_url_duplicate_def store_processed_url_def record_processed_item_def
        redis_exists_def redis_setex_def redis_keys_def redis_get_def redis_live_def
        split: sum.splits)

text \<open>
  C1 (exact duplicate). With the hash check enabled, a hash function that returns, and
  an empty store (the in-memory tables, or a Redis that answers, with a positive time
  window): the first call returns \<open>(False, "unique", 0.0)\<close>, and a second call with the
  same content, title and URL returns \<open>(True, "exact_duplicate", 1.0)\<close>; with Redis the
  second call is made before the key of the first expires.
\<close>

theorem exact_duplicate_on_second_call:
  assumes "sha256_hex L (normalize_content content) = Inr h"
    and "client = None
         \<or> (client = Some \<lparr>alive = True, entries = []\<rparr> \<and> 0 < hours \<and> t2 < t1 + hours * 3600)"
  shows "snd (is_duplicate L (init_engine threshold hours True semantic client) t1 content title url)
           = (False, ''unique'', 0)
       \<and> snd (is_duplicate L
                (fst (is_duplicate L (init_engine threshold hours True semantic client)
                        t1 content title url))
                t2 content title url)
           = (True, ''exact_duplicate'', 1)"
proof -
  let ?E = "init_engine threshold hours True semantic client"
  let ?R = "is_duplicate L ?E t1 content title url"
  have first: "snd ?R = (False, ''unique'', 0) \<and> content_hash_enabled (fst ?R)
               \<and> is_hash_duplicate (fst ?R) t2 h"
  proof (cases "client = None")
    case True
    then show ?thesis using first_call_local[OF assms(1)] by simp
  next
    case False
    then have c: "client = Some \<lparr>alive = True, entries = []\<rparr>" "0 < hours" "t2 < t1 + hours * 3600"
      using assms(2) by auto
    show ?thesis unfolding c(1) by (rule first_call_remote[OF assms(1) c(2) c(3)])
  qed
  then have "snd (is_duplicate L (fst ?R) t2 content title url) = (True, ''exact_duplicate'', 1)"
    using second_call_exact[OF _ assms(1), of "fst ?R" t2] by blast
  then show ?thesis using first by blast
qed

text \<open>Both backends with the default settings, the second call a minute later.\<close>

theorem exact_duplicate_on_second_call_witness:
  "snd (is_duplicate stub_lib local_engine 0 ''hello world'' ''title'' ''http://a'')
     = (False, ''unique'', 0)
   \<and> snd (is_duplicate stub_lib
          (fst (is_duplicate stub_lib local_engine 0 ''hello world'' ''title'' ''http://a''))
          60 ''hello world'' ''title'' ''http://a'')
     = (True, ''exact_duplicate'', 1)
   \<and> snd (is_duplicate stub_lib remote_engine 0 ''hello world'' ''title'' ''http://a'')
     = (False, ''unique'', 0)
   \<and> snd (is_duplicate stub_lib
          (fst (is_duplicate stub_lib remote_engine 0 ''hello world'' ''title'' ''http://a''))
          60 ''hello world'' ''title'' ''http://a'')
     = (True, ''exact_duplicate'', 1)"
proof -
  have sha: "sha256_hex stub_lib (normalize_content ''hello world'') = Inr ''hello world''"
    by code_simp
  have loc: "(None :: redis option) = None
             \<or> ((None :: redis option) = Some \<lparr>alive = True, entries = []\<rparr> \<and> (0::int) < 24
                \<and> (60::int) < 0 + 24 * 3600)"
    by simp
  have rem: "Some \<lparr>alive = True, entries = []\<rparr> = None
             \<or> (Some \<lparr>alive = True, entries = []\<rparr> = Some \<lparr>alive = True, entries = []\<rparr>
                \<and> (0::int) < 24 \<and> (60::int) < 0 + 24 * 3600)"
    by simp
  show ?thesis
    using exact_duplicate_on_second_call[OF sha loc, of "round_double 0.8" True "''title''" "''http://a''"]
          exact_duplicate_on_second_call[OF sha rem, of "round_double 0.8" True "''title''" "''http://a''"]
    by (simp add: local_engine_def remote_engine_def)
qed

text \<open>
  C2 (fail open), as amended: the duplicate check always returns a verdict, and the
  verdict is \<open>(False, "error_fallback", 0.0)\<close> exactly when the hash check is enabled and
  the computation of the content hash raises, the one exception that reaches the handler
  of \<open>is_duplicate\<close>. An error inside a store helper, the fingerprinter or the similarity
  computation is handled there, and the check goes on.
\<close>

theorem error_fallback_iff_hash_raises:
  "snd (is_duplicate L E now content title url) = (False, ''error_fallback'', 0)
   \<longleftrightarrow> content_hash_enabled E \<and> (\<exists>e. sha256_hex L (normalize_content content) = Inl e)"
  by (auto simp: is_duplicate_def is_duplicate_body_def create_content_hash_def Let_def
        clean_keeps split: sum.splits option.splits prod.splits if_splits)

text \<open>A hash function that raises.\<close>

theorem error_fallback_iff_hash_raises_witness:
  "snd (is_duplicate failing_hash_lib local_engine 0 ''hello world'' ''title'' ''http://a'')
     = (False, ''error_fallback'', 0)"
proof -
  have 1: "content_hash_enabled local_engine" by code_simp
  have 2: "sha256_hex failing_hash_lib (normalize_content ''hello world'')
           = Inl (Raised ''UnicodeEncodeError'')"
    by code_simp
  show ?thesis
    using error_fallback_iff_hash_raises[of failing_hash_lib local_engine 0 "''hello world''"
            "''title''" "''http://a''"] 1 2
    by blast
qed

text \<open>
  Against C2 as stated: with a Redis that no longer answers, every command of the check
  raises inside a helper, and the verdict is \<open>unique\<close>, not \<open>error_fallback\<close>.
\<close>

theorem redis_down_counterexample:
  "redis_exists \<lparr>alive = False, entries = []\<rparr> 0 (''hash:'' @ ''hello world'') = Inl ConnectionError
   \<and> snd (is_duplicate stub_lib down_engine 0 ''hello world'' ''title'' ''http://a'')
     = (False, ''unique'', 0)
   \<and> snd (is_duplicate stub_lib down_engine 0 ''hello world'' ''title'' ''http://a'')
     \<noteq> (False, ''error_fallback'', 0)"
  by code_simp

text \<open>
  C5 (expiry). The claim is that a stored record no longer counts once the time window
  has passed, in the in-memory backend too. There the hashes are kept in a set without
  timestamps, which the sweep does not touch: the same content is an exact duplicate 25
  hours later under a window of 24 hours, and one second later under a window of 0.
\<close>

theorem local_hash_never_expires:
  "snd (is_duplicate stub_lib local_engine 0 ''hello world'' ''title'' ''http://a'')
     = (False, ''unique'', 0)
   \<and> snd (is_duplicate stub_lib
          (fst (is_duplicate stub_lib local_engine 0 ''hello world'' ''title'' ''http://a''))
          (25 * 3600) ''hello world'' ''title'' ''http://a'')
     = (True, ''exact_duplicate'', 1)
   \<and> snd (is_duplicate stub_lib
          (fst (is_duplicate stub_lib zero_window_engine 0 ''hello world'' ''title'' ''http://a''))
          1 ''hello world'' ''title'' ''http://a'')
     = (True, ''exact_duplicate'', 1)"
proof -
  let ?R = "is_duplicate stub_lib local_engine 0 ''hello world'' ''title'' ''http://a''"
  let ?Z = "is_duplicate stub_lib zero_window_engine 0 ''hello world'' ''title'' ''http://a''"
  have sha: "sha256_hex stub_lib (normalize_content ''hello world'') = Inr ''hello world''"
    by code_simp
  have day: "snd ?R = (False, ''unique'', 0) \<and> content_hash_enabled (fst ?R)
             \<and> is_hash_duplicate (fst ?R) (25 * 3600) ''hello world''"
    unfolding local_engine_def by (rule first_call_local[OF sha])
  have zero: "snd ?Z = (False, ''unique'', 0) \<and> content_hash_enabled (fst ?Z)
              \<and> is_hash_duplicate (fst ?Z) 1 ''hello world''"
    unfolding zero_window_engine_def by (rule first_call_local[OF sha])
  have "snd (is_duplicate stub_lib (fst ?R) (25 * 3600) ''hello world'' ''title'' ''http://a'')
          = (True, ''exact_duplicate'', 1)"
    using day by (intro second_call_exact[OF _ sha]) simp_all
  moreover have "snd (is_duplicate stub_lib (fst ?Z) 1 ''hello world'' ''title'' ''http://a'')
          = (True, ''exact_duplicate'', 1)"
    using zero by (intro second_call_exact[OF _ sha]) simp_all
  ultimately show ?thesis using day by simp
qed

end
